theory Spec2Isabelle
  imports Main "HOL-Library.Sublist"
begin

section \<open>The request handler of server.py\<close>

text \<open>
  \<^verbatim>\<open>CustomHTTPRequestHandler\<close> subclasses the standard library's static-file handler and
  overrides two methods. A handler object serves one connection: it collects the status
  line and the header lines in a buffer and writes them to the connection when the
  headers are finalized. The connection's output is kept as a list of protocol items.
\<close>

datatype wire =
    StatusLine nat
  | HeaderLine string string
  | BlankLine
  | Body string

record handler =
  headers_buffer :: "wire list"
  wfile :: "wire list"

definition new_handler :: handler where
  "new_handler = \<lparr>headers_buffer = [], wfile = []\<rparr>"

text \<open>
  What the source leaves to the base handler is a parameter: the values of the
  \<^verbatim>\<open>Server\<close> and \<^verbatim>\<open>Date\<close> headers that \<^verbatim>\<open>send_response\<close> adds, the headers
  inferred for a served file, the headers and the body of an error page, and what the
  base class does for an entry that is not a regular file and for a method other than
  GET and OPTIONS.
  A method body of the base class is a list of calls on \<^verbatim>\<open>self\<close>, so that a call of
  \<^verbatim>\<open>self.end_headers()\<close> made by the base class reaches the override of the subclass.
\<close>

datatype call =
    Send_response nat
  | Send_header string string
  | End_headers
  | Write string

type_synonym path = "string list"

record request =
  command :: string
  url :: string

record base_handler =
  version_string :: string
  date_time_string :: string
  file_headers :: "path \<Rightarrow> string \<Rightarrow> (string \<times> string) list"
  error_headers :: "nat \<Rightarrow> (string \<times> string) list"
  error_body :: "nat \<Rightarrow> string"
  other_entry :: "path \<Rightarrow> call list"
  other_method :: "request \<Rightarrow> call list"

subsection \<open>The primitives of the base class\<close>

text \<open>
  These follow the documented behaviour of \<^verbatim>\<open>http.server.BaseHTTPRequestHandler\<close> for
  HTTP/1.x: \<^verbatim>\<open>send_header\<close> adds a line to the buffer, \<^verbatim>\<open>send_response\<close> adds the
  status line followed by the \<^verbatim>\<open>Server\<close> and \<^verbatim>\<open>Date\<close> headers, and the base
  \<^verbatim>\<open>end_headers\<close> adds the blank line and flushes the buffer to the connection.
\<close>

definition send_header :: "string \<Rightarrow> string \<Rightarrow> handler \<Rightarrow> handler" where
  "send_header keyword v h = h\<lparr>headers_buffer := headers_buffer h @ [HeaderLine keyword v]\<rparr>"

definition send_response_only :: "nat \<Rightarrow> handler \<Rightarrow> handler" where
  "send_response_only code h = h\<lparr>headers_buffer := headers_buffer h @ [StatusLine code]\<rparr>"

definition send_response :: "base_handler \<Rightarrow> nat \<Rightarrow> handler \<Rightarrow> handler" where
  "send_response b code h =
     send_header ''Date'' (date_time_string b)
       (send_header ''Server'' (version_string b) (send_response_only code h))"

definition flush_headers :: "handler \<Rightarrow> handler" where
  "flush_headers h = h\<lparr>wfile := wfile h @ headers_buffer h, headers_buffer := []\<rparr>"

definition base_end_headers :: "handler \<Rightarrow> handler" where
  "base_end_headers h =
     flush_headers (h\<lparr>headers_buffer := headers_buffer h @ [BlankLine]\<rparr>)"

definition wfile_write :: "string \<Rightarrow> handler \<Rightarrow> handler" where
  "wfile_write bs h = h\<lparr>wfile := wfile h @ [Body bs]\<rparr>"

subsection \<open>The two methods of CustomHTTPRequestHandler\<close>

text \<open>
  \<^verbatim>\<open>
  def end_headers(self):
      self.send_header('Access-Control-Allow-Origin', '*')
      self.send_header('Access-Control-Allow-Methods', 'GET, POST, OPTIONS')
      self.send_header('Access-Control-Allow-Headers', 'Content-Type')
      super().end_headers()

  def do_OPTIONS(self):
      self.send_response(200)
      self.end_headers()
  \<close>
\<close>

definition end_headers :: "handler \<Rightarrow> handler" where
  "end_headers h =
     base_end_headers
       (send_header ''Access-Control-Allow-Headers'' ''Content-Type''
         (send_header ''Access-Control-Allow-Methods'' ''GET, POST, OPTIONS''
           (send_header ''Access-Control-Allow-Origin'' ''*'' h)))"

definition do_OPTIONS :: "base_handler \<Rightarrow> handler \<Rightarrow> handler" where
  "do_OPTIONS b h = end_headers (send_response b 200 h)"

subsection \<open>Running a method of the base class on the subclass\<close>

fun exec :: "base_handler \<Rightarrow> call \<Rightarrow> handler \<Rightarrow> handler" where
  "exec b (Send_response code) h = send_response b code h"
| "exec b (Send_header keyword v) h = send_header keyword v h"
| "exec b End_headers h = end_headers h"
| "exec b (Write bs) h = wfile_write bs h"

fun run :: "base_handler \<Rightarrow> call list \<Rightarrow> handler \<Rightarrow> handler" where
  "run b [] h = h"
| "run b (c # cs) h = run b cs (exec b c h)"

subsection \<open>The static-file handler\<close>

datatype entry = Regular string | Directory | Special

fun split_on :: "char \<Rightarrow> string \<Rightarrow> string list" where
  "split_on c [] = [[]]"
| "split_on c (x # xs) =
     (if x = c then [] # split_on c xs
      else (case split_on c xs of [] \<Rightarrow> [[x]] | w # ws \<Rightarrow> (x # w) # ws))"

text \<open>
  Modelled from the spec: the base class \<^verbatim>\<open>http.server.SimpleHTTPRequestHandler\<close> belongs
  to the standard library, not to the repository. The spec gives its contract: a GET
  serves the file at the request path relative to the document root, with status 200,
  the file's contents and the inferred headers, or answers with the standard not-found
  status when the path is absent; an error response is the base handler's standard one.
\<close>

definition translate_path :: "path \<Rightarrow> string \<Rightarrow> path" where
  "translate_path root p =
     root @ filter (\<lambda>w. w \<noteq> [] \<and> w \<noteq> ''.'' \<and> w \<noteq> ''..'') (split_on (CHR ''/'') p)"

definition send_error :: "base_handler \<Rightarrow> nat \<Rightarrow> call list" where
  "send_error b code =
     Send_response code # map (\<lambda>(k, v). Send_header k v) (error_headers b code)
       @ [End_headers, Write (error_body b code)]"

definition do_GET :: "base_handler \<Rightarrow> path \<Rightarrow> (path \<Rightarrow> entry option) \<Rightarrow> string \<Rightarrow> call list" where
  "do_GET b root stat p =
     (let f = translate_path root p in
      case stat f of
        None \<Rightarrow> send_error b 404
      | Some (Regular bs) \<Rightarrow>
          Send_response 200 # map (\<lambda>(k, v). Send_header k v) (file_headers b f bs)
            @ [End_headers, Write bs]
      | Some Directory \<Rightarrow> other_entry b f
      | Some Special \<Rightarrow> other_entry b f)"

text \<open>
  The dispatch on the request method: the class defines \<^verbatim>\<open>do_OPTIONS\<close> itself and
  inherits everything else.
\<close>

definition handle :: "base_handler \<Rightarrow> path \<Rightarrow> (path \<Rightarrow> entry option) \<Rightarrow> request \<Rightarrow> handler \<Rightarrow> handler" where
  "handle b root stat req h =
     (if command req = ''OPTIONS'' then do_OPTIONS b h
      else if command req = ''GET'' then run b (do_GET b root stat (url req)) h
      else run b (other_method b req) h)"

definition cors_headers :: "wire list" where
  "cors_headers =
     [HeaderLine ''Access-Control-Allow-Origin'' ''*'',
      HeaderLine ''Access-Control-Allow-Methods'' ''GET, POST, OPTIONS'',
      HeaderLine ''Access-Control-Allow-Headers'' ''Content-Type'']"

text \<open>
  What a connection received, cut into header blocks: the status and header lines up to
  each blank line, the blank line included. Lines that a body or the end of the output
  cuts off form a block too, one that lacks its blank line. The first argument holds
  the lines of the block under way.
\<close>

fun header_blocks :: "wire list \<Rightarrow> wire list \<Rightarrow> wire list list" where
  "header_blocks cur [] = (if cur = [] then [] else [cur])"
| "header_blocks cur (BlankLine # ws) = (cur @ [BlankLine]) # header_blocks [] ws"
| "header_blocks cur (Body bs # ws) = (if cur = [] then [] else [cur]) @ header_blocks [] ws"
| "header_blocks cur (StatusLine code # ws) = header_blocks (cur @ [StatusLine code]) ws"
| "header_blocks cur (HeaderLine k v # ws) = header_blocks (cur @ [HeaderLine k v]) ws"

text \<open>
  Every header block on the connection ends with the three CORS header lines and the
  blank line: no status line and no header line is sent without them.
\<close>

definition every_header_block_ends_with_cors :: "wire list \<Rightarrow> bool" where
  "every_header_block_ends_with_cors ws =
     (\<forall>blk \<in> set (header_blocks [] ws). suffix (cors_headers @ [BlankLine]) blk)"

text \<open>
  The method that answers the request ends the headers of its response:
  \<^verbatim>\<open>do_OPTIONS\<close> does, and a method of the base class does when its body calls
  \<^verbatim>\<open>self.end_headers()\<close>.
\<close>

definition ends_headers :: "base_handler \<Rightarrow> path \<Rightarrow> (path \<Rightarrow> entry option) \<Rightarrow> request \<Rightarrow> bool" where
  "ends_headers b root stat req =
     (command req = ''OPTIONS''
      \<or> End_headers \<in> set (if command req = ''GET'' then do_GET b root stat (url req)
                             else other_method b req))"

text \<open>The lines of a header block: status lines and header lines.\<close>

fun is_line :: "wire \<Rightarrow> bool" where
  "is_line (StatusLine code) = True"
| "is_line (HeaderLine k v) = True"
| "is_line BlankLine = False"
| "is_line (Body bs) = False"

section \<open>The entry point of server.py\<close>

text \<open>
  \<^verbatim>\<open>main\<close> acts on the process (working directory, console, listening socket) and
  depends on what is outside of it: where the script lies, what the file system holds,
  whether the port can be bound, whether the browser starts, which requests arrive and
  how the serve loop ends. The first is a state that the statements pass on, with a
  trace of what was done; the second is a record that is only read.
\<close>

datatype exn = KeyboardInterrupt | SystemExit nat | OSError | Error string

text \<open>\<^verbatim>\<open>except Exception\<close> catches neither an interrupt nor \<^verbatim>\<open>SystemExit\<close>.\<close>

fun is_Exception :: "exn \<Rightarrow> bool" where
  "is_Exception KeyboardInterrupt = False"
| "is_Exception (SystemExit n) = False"
| "is_Exception OSError = True"
| "is_Exception (Error msg) = True"

fun is_KeyboardInterrupt :: "exn \<Rightarrow> bool" where
  "is_KeyboardInterrupt KeyboardInterrupt = True"
| "is_KeyboardInterrupt x = False"

datatype event =
    Chdir path
  | Print string
  | Bind string nat
  | Open_browser string
  | Serve_forever
  | Response request "wire list"
  | Server_close

record world =
  cwd :: path
  listening :: bool
  trace :: "event list"

datatype browser_result = Returns bool | Raises exn

text \<open>
  \<open>banner_interrupt = Some k\<close>: the operator's interrupt arrives while the line
  number \<open>k\<close> of the banner is to be printed. \<open>serve_end = None\<close>: nothing ever ends
  the serve loop.
\<close>

record env =
  script_file :: path
  stat :: "path \<Rightarrow> entry option"
  bind_error :: "exn option"
  banner_interrupt :: "nat option"
  browser :: browser_result
  base :: base_handler
  requests :: "request list"
  serve_end :: "exn option"

text \<open>
  A statement ends normally, raises, or never ends (the serve loop when nothing
  interrupts it).
\<close>

datatype outcome = Returned | Raised exn | Blocked

type_synonym stmt = "world \<Rightarrow> outcome \<times> world"

definition emit :: "event \<Rightarrow> world \<Rightarrow> world" where
  "emit ev w = w\<lparr>trace := trace w @ [ev]\<rparr>"

definition pass :: stmt where
  "pass w = (Returned, w)"

definition seq :: "stmt \<Rightarrow> stmt \<Rightarrow> stmt" where
  "seq a c w = (case a w of (Returned, w') \<Rightarrow> c w' | (r, w') \<Rightarrow> (r, w'))"

fun block :: "stmt list \<Rightarrow> stmt" where
  "block [] = pass"
| "block (a # as) = seq a (block as)"

definition try_except :: "stmt \<Rightarrow> (exn \<Rightarrow> bool) \<Rightarrow> stmt \<Rightarrow> stmt" where
  "try_except body catches handler w =
     (case body w of
        (Raised x, w') \<Rightarrow> if catches x then handler w' else (Raised x, w')
      | (r, w') \<Rightarrow> (r, w'))"

definition print_line :: "string \<Rightarrow> stmt" where
  "print_line s w = (Returned, emit (Print s) w)"

definition chdir :: "path \<Rightarrow> stmt" where
  "chdir d w = (Returned, emit (Chdir d) (w\<lparr>cwd := d\<rparr>))"

definition sys_exit :: "nat \<Rightarrow> stmt" where
  "sys_exit n w = (Raised (SystemExit n), w)"

text \<open>
  \<^verbatim>\<open>os.path.exists(f)\<close> for a relative name: whether \<^verbatim>\<open>stat\<close> finds anything, of
  any kind, at that name under the working directory.
\<close>

definition path_exists :: "env \<Rightarrow> world \<Rightarrow> string \<Rightarrow> bool" where
  "path_exists e w f = (stat e (cwd w @ [f]) \<noteq> None)"

text \<open>
  \<^verbatim>\<open>with socketserver.TCPServer((HOST, PORT), Handler) as httpd: body\<close>. The constructor
  binds and listens, or raises (and then the body is not run and nothing listens);
  leaving the body, normally or by an exception, closes the socket and lets the
  exception through.
\<close>

definition with_TCPServer :: "env \<Rightarrow> string \<Rightarrow> nat \<Rightarrow> stmt \<Rightarrow> stmt" where
  "with_TCPServer e host port body w =
     (let w1 = emit (Bind host port) w in
      case bind_error e of
        Some x \<Rightarrow> (Raised x, w1)
      | None \<Rightarrow>
          (case body (w1\<lparr>listening := True\<rparr>) of
             (Blocked, w2) \<Rightarrow> (Blocked, w2)
           | (r, w2) \<Rightarrow> (r, emit Server_close (w2\<lparr>listening := False\<rparr>))))"

definition webbrowser_open :: "env \<Rightarrow> string \<Rightarrow> stmt" where
  "webbrowser_open e u w =
     ((case browser e of Returns ok \<Rightarrow> Returned | Raises x \<Rightarrow> Raised x),
      emit (Open_browser u) w)"

text \<open>
  The serve loop answers the requests that arrive, one after the other, each with a
  handler of its own whose document root is the working directory, until something
  ends it.
\<close>

definition serve_one :: "env \<Rightarrow> world \<Rightarrow> request \<Rightarrow> world" where
  "serve_one e w req =
     emit (Response req (wfile (handle (base e) (cwd w) (stat e) req new_handler))) w"

definition serve_forever :: "env \<Rightarrow> stmt" where
  "serve_forever e w =
     ((case serve_end e of None \<Rightarrow> Blocked | Some x \<Rightarrow> Raised x),
      foldl (serve_one e) (emit Serve_forever w) (requests e))"

subsection \<open>Strings\<close>

fun join :: "string \<Rightarrow> string list \<Rightarrow> string" where
  "join sep [] = []"
| "join sep [x] = x"
| "join sep (x # y # ys) = x @ sep @ join sep (y # ys)"

definition digit :: "nat \<Rightarrow> char" where
  "digit d = ''0123456789'' ! d"

fun str_nat :: "nat \<Rightarrow> string" where
  "str_nat n = (if n < 10 then [digit n] else str_nat (n div 10) @ [digit (n mod 10)])"

declare str_nat.simps [simp del]

definition parent :: "path \<Rightarrow> path" where
  "parent p = butlast p"

definition path_str :: "path \<Rightarrow> string" where
  "path_str p = (if p = [] then ''/'' else concat (map (\<lambda>c. CHR ''/'' # c) p))"

text \<open>The symbols of the messages, as the bytes of their UTF-8 encoding.\<close>

definition cross_mark :: string where
  "cross_mark = [CHR 0xE2, CHR 0x9D, CHR 0x8C]"

definition rocket :: string where
  "rocket = [CHR 0xF0, CHR 0x9F, CHR 0x9A, CHR 0x80]"

definition file_folder :: string where
  "file_folder = [CHR 0xF0, CHR 0x9F, CHR 0x93, CHR 0x81]"

definition globe :: string where
  "globe = [CHR 0xF0, CHR 0x9F, CHR 0x8C, CHR 0x90]"

definition mobile_phone :: string where
  "mobile_phone = [CHR 0xF0, CHR 0x9F, CHR 0x93, CHR 0xB1]"

definition sparkles :: string where
  "sparkles = [CHR 0xE2, CHR 0x9C, CHR 0xA8]"

definition bullet :: string where
  "bullet = [CHR 0xE2, CHR 0x80, CHR 0xA2]"

definition stop_sign :: string where
  "stop_sign = [CHR 0xF0, CHR 0x9F, CHR 0x9B, CHR 0x91]"

definition newline :: string where
  "newline = [CHR 0x0A]"

subsection \<open>main\<close>

definition PORT :: nat where
  "PORT = 8000"

definition HOST :: string where
  "HOST = ''localhost''"

definition required_files :: "string list" where
  "required_files = [''index.html'', ''styles.css'', ''script.js'']"

definition missing_files :: "env \<Rightarrow> world \<Rightarrow> string list" where
  "missing_files e w = filter (\<lambda>f. \<not> path_exists e w f) required_files"

definition missing_message :: "string list \<Rightarrow> string" where
  "missing_message fs = cross_mark @ '' Missing required files: '' @ join '', '' fs"

definition check_required :: "env \<Rightarrow> stmt" where
  "check_required e w =
     (if missing_files e w \<noteq> [] then
        block
          [print_line (missing_message (missing_files e w)),
           print_line ''Please ensure all frontend files are in the same directory as this server script.'',
           sys_exit 1] w
      else pass w)"

definition banner_lines :: "path \<Rightarrow> string list" where
  "banner_lines script_dir =
     [rocket @ '' Dynamic Event Scheduler Server Starting...'',
      file_folder @ '' Serving files from: '' @ path_str script_dir,
      globe @ '' Server running at: http://'' @ HOST @ '':'' @ str_nat PORT,
      mobile_phone @ '' Open your browser and go to: http://localhost:'' @ str_nat PORT,
      newline @ sparkles @ '' Features available:'',
      ''   '' @ bullet @ '' Interactive event scheduling'',
      ''   '' @ bullet @ '' Visual conflict graph'',
      ''   '' @ bullet @ '' Timeline view'',
      ''   '' @ bullet @ '' Real-time updates'',
      ''   '' @ bullet @ '' Export functionality'',
      newline @ ''Press Ctrl+C to stop the server'',
      replicate 50 (CHR ''='')]"

definition banner_print :: "env \<Rightarrow> nat \<times> string \<Rightarrow> stmt" where
  "banner_print e ks w =
     (if banner_interrupt e = Some (fst ks) then (Raised KeyboardInterrupt, w)
      else print_line (snd ks) w)"

definition server_url :: string where
  "server_url = ''http://'' @ HOST @ '':'' @ str_nat PORT"

definition shutdown_lines :: "string list" where
  "shutdown_lines =
     [newline @ newline @ stop_sign @ '' Server stopped by user'',
      ''Thank you for using Dynamic Event Scheduler!'']"

text \<open>
  \<^verbatim>\<open>
  def main():
      script_dir = Path(__file__).parent
      os.chdir(script_dir)
      required_files = ['index.html', 'styles.css', 'script.js']
      missing_files = [f for f in required_files if not os.path.exists(f)]
      if missing_files:
          print(f"... Missing required files: {', '.join(missing_files)}")
          print("Please ensure all frontend files are in the same directory ...")
          sys.exit(1)
      with socketserver.TCPServer((HOST, PORT), CustomHTTPRequestHandler) as httpd:
          print(...)                      # the twelve lines of the banner
          try:
              webbrowser.open(f'http://{HOST}:{PORT}')
          except Exception:
              pass
          try:
              httpd.serve_forever()
          except KeyboardInterrupt:
              print("... Server stopped by user")
              print("Thank you for using Dynamic Event Scheduler!")
  \<close>
\<close>

definition main :: "env \<Rightarrow> stmt" where
  "main e =
     (let script_dir = parent (script_file e) in
      block
        [chdir script_dir,
         check_required e,
         with_TCPServer e HOST PORT
           (block
              (map (banner_print e) (enumerate 0 (banner_lines script_dir))
               @ [try_except (webbrowser_open e server_url) is_Exception pass,
                  try_except (serve_forever e) is_KeyboardInterrupt
                    (block (map print_line shutdown_lines))]))])"

text \<open>The process starts somewhere, with no socket and nothing done yet.\<close>

definition start :: "path \<Rightarrow> world" where
  "start d = \<lparr>cwd = d, listening = False, trace = []\<rparr>"

text \<open>
  How the process ends: status 0 when \<^verbatim>\<open>main\<close> returns, the status given to
  \<^verbatim>\<open>sys.exit\<close>, a non-zero status when an exception reaches the top, and not at all
  while the serve loop runs.
\<close>

datatype process_end = Exit_zero | Exit_nonzero | Still_running

fun process_exit :: "outcome \<Rightarrow> process_end" where
  "process_exit Returned = Exit_zero"
| "process_exit (Raised (SystemExit n)) = (if n = 0 then Exit_zero else Exit_nonzero)"
| "process_exit (Raised x) = Exit_nonzero"
| "process_exit Blocked = Still_running"

subsection \<open>Names for what the runs of main show\<close>

definition script_dir :: "env \<Rightarrow> path" where
  "script_dir e = parent (script_file e)"

definition missing_at_root :: "env \<Rightarrow> string list" where
  "missing_at_root e = filter (\<lambda>f. stat e (script_dir e @ [f]) = None) required_files"

definition banner_interrupted :: "env \<Rightarrow> bool" where
  "banner_interrupted e =
     (case banner_interrupt e of
        None \<Rightarrow> False
      | Some k \<Rightarrow> k < length (banner_lines (script_dir e)))"

definition browser_swallowed :: "env \<Rightarrow> bool" where
  "browser_swallowed e = (case browser e of Returns ok \<Rightarrow> True | Raises x \<Rightarrow> is_Exception x)"

definition served :: "env \<Rightarrow> event list" where
  "served e =
     map (\<lambda>req. Response req (wfile (handle (base e) (script_dir e) (stat e) req new_handler)))
       (requests e)"

definition startup :: "env \<Rightarrow> event list" where
  "startup e =
     [Chdir (script_dir e), Bind ''localhost'' 8000]
       @ map Print (banner_lines (script_dir e))
       @ [Open_browser ''http://localhost:8000'']"

section \<open>A concrete run\<close>

text \<open>
  The script lies in \<^verbatim>\<open>/home/user/app\<close> with its three files; the browser starts, three
  requests arrive, then the operator presses Ctrl+C.
\<close>

definition example_base :: base_handler where
  "example_base =
     \<lparr>version_string = ''SimpleHTTP/0.6'',
      date_time_string = ''Thu, 01 Jan 1970 00:00:00 GMT'',
      file_headers = (\<lambda>f bs. [(''Content-type'', ''text/html'')]),
      error_headers = (\<lambda>code. [(''Content-Type'', ''text/html;charset=utf-8'')]),
      error_body = (\<lambda>code. ''File not found''),
      other_entry = (\<lambda>f. [Send_response 301, End_headers]),
      other_method = (\<lambda>req. [Send_response 501, End_headers])\<rparr>"

definition example_stat :: "path \<Rightarrow> entry option" where
  "example_stat f =
     (if f = [''home'', ''user'', ''app'', ''index.html''] then Some (Regular ''<html></html>'')
      else if f = [''home'', ''user'', ''app'', ''styles.css''] then Some (Regular ''body {}'')
      else if f = [''home'', ''user'', ''app'', ''script.js''] then Some (Regular ''void 0;'')
      else None)"

definition example_requests :: "request list" where
  "example_requests =
     [\<lparr>command = ''GET'', url = ''/index.html''\<rparr>,
      \<lparr>command = ''OPTIONS'', url = ''/api/events''\<rparr>,
      \<lparr>command = ''GET'', url = ''/does-not-exist.xyz''\<rparr>]"

definition example_env :: env where
  "example_env =
     \<lparr>script_file = [''home'', ''user'', ''app'', ''server.py''],
      stat = example_stat,
      bind_error = None,
      banner_interrupt = None,
      browser = Returns True,
      base = example_base,
      requests = example_requests,
      serve_end = Some KeyboardInterrupt\<rparr>"

text \<open>The same directory, where the three names are directories.\<close>

definition directories_stat :: "path \<Rightarrow> entry option" where
  "directories_stat f =
     (if f \<in> {[''home'', ''user'', ''app'', ''index.html''],
               [''home'', ''user'', ''app'', ''styles.css''],
               [''home'', ''user'', ''app'', ''script.js'']}
      then Some Directory else None)"

text \<open>The same directory without its style sheet and its script.\<close>

definition incomplete_stat :: "path \<Rightarrow> entry option" where
  "incomplete_stat f =
     (if f = [''home'', ''user'', ''app'', ''index.html''] then Some (Regular ''<html></html>'')
      else None)"

section \<open>Properties of the handler\<close>

lemma end_headers_eq:
  "end_headers h =
     \<lparr>headers_buffer = [], wfile = wfile h @ headers_buffer h @ cors_headers @ [BlankLine]\<rparr>"
  by (simp add: end_headers_def base_end_headers_def flush_headers_def send_header_def
      cors_headers_def)

lemma send_response_eq:
  "send_response b code h =
     h\<lparr>headers_buffer := headers_buffer h @
        [StatusLine code, HeaderLine ''Server'' (version_string b),
         HeaderLine ''Date'' (date_time_string b)]\<rparr>"
  by (simp add: send_response_def send_header_def send_response_only_def)

lemma run_append: "run b (xs @ ys) h = run b ys (run b xs h)"
  by (induction xs arbitrary: h) simp_all

lemma run_send_headers:
  "run b (map (\<lambda>(k, v). Send_header k v) kvs) h =
     h\<lparr>headers_buffer := headers_buffer h @ map (\<lambda>(k, v). HeaderLine k v) kvs\<rparr>"
  by (induction kvs arbitrary: h) (auto simp: send_header_def)

lemma lines_cors_headers: "\<forall>x \<in> set cors_headers. is_line x"
  by (simp add: cors_headers_def)

lemma header_blocks_lines:
  "\<forall>x \<in> set ls. is_line x \<Longrightarrow> header_blocks cur (ls @ rest) = header_blocks (cur @ ls) rest"
proof (induction ls arbitrary: cur)
  case Nil
  then show ?case by simp
next
  case (Cons x ls)
  then show ?case by (cases x) simp_all
qed

lemma header_blocks_block:
  assumes "\<forall>x \<in> set ls. is_line x"
  shows "header_blocks [] (ls @ BlankLine # rest) = (ls @ [BlankLine]) # header_blocks [] rest"
  using header_blocks_lines [OF assms, of "[]" "BlankLine # rest"] by simp

text \<open>
  What the handler has written so far is closed when the header blocks of anything
  written after it are counted apart. Each call keeps it so; ending the headers adds
  one block, the buffered lines with the CORS headers and the blank line, and nothing
  else adds any.
\<close>

lemma exec_header_blocks:
  assumes closed: "\<And>ys. header_blocks [] (wfile h @ ys)
      = header_blocks [] (wfile h) @ header_blocks [] ys"
    and lines: "\<forall>x \<in> set (headers_buffer h). is_line x"
  shows "(\<forall>ys. header_blocks [] (wfile (exec b c h) @ ys)
        = header_blocks [] (wfile (exec b c h)) @ header_blocks [] ys)
    \<and> (\<forall>x \<in> set (headers_buffer (exec b c h)). is_line x)
    \<and> header_blocks [] (wfile (exec b c h))
        = header_blocks [] (wfile h)
          @ (if c = End_headers then [headers_buffer h @ cors_headers @ [BlankLine]] else [])"
proof (cases c)
  case (Send_response code)
  with assms show ?thesis by (simp add: send_response_eq)
next
  case (Send_header k v)
  with assms show ?thesis by (simp add: send_header_def)
next
  case End_headers
  from lines lines_cors_headers
  have l: "\<forall>x \<in> set (headers_buffer h @ cors_headers). is_line x"
    by auto
  have blk: "header_blocks [] ((headers_buffer h @ cors_headers) @ BlankLine # ys)
      = ((headers_buffer h @ cors_headers) @ [BlankLine]) # header_blocks [] ys" for ys
    by (rule header_blocks_block [OF l])
  have "header_blocks [] (wfile (end_headers h) @ ys)
      = header_blocks [] (wfile h)
        @ (headers_buffer h @ cors_headers @ [BlankLine]) # header_blocks [] ys" for ys
    using closed [of "(headers_buffer h @ cors_headers) @ BlankLine # ys"] blk [of ys]
    by (simp add: end_headers_eq)
  from this [of "[]"] this End_headers show ?thesis
    by (simp add: end_headers_eq)
next
  case (Write bs)
  have "header_blocks [] (wfile (wfile_write bs h) @ ys)
      = header_blocks [] (wfile h) @ header_blocks [] ys" for ys
    using closed [of "Body bs # ys"] by (simp add: wfile_write_def)
  from this [of "[]"] this Write lines show ?thesis
    by (simp add: wfile_write_def)
qed

lemma run_header_blocks:
  assumes "\<And>ys. header_blocks [] (wfile h @ ys)
      = header_blocks [] (wfile h) @ header_blocks [] ys"
    and "\<forall>x \<in> set (headers_buffer h). is_line x"
    and "every_header_block_ends_with_cors (wfile h)"
  shows "every_header_block_ends_with_cors (wfile (run b cs h))
    \<and> length (header_blocks [] (wfile (run b cs h)))
        = length (header_blocks [] (wfile h)) + count_list cs End_headers"
  using assms
proof (induction cs arbitrary: h)
  case Nil
  then show ?case by simp
next
  case (Cons c cs)
  note step = exec_header_blocks [OF Cons.prems(1) Cons.prems(2), of b c]
  from step have closed': "\<And>ys. header_blocks [] (wfile (exec b c h) @ ys)
      = header_blocks [] (wfile (exec b c h)) @ header_blocks [] ys"
    by blast
  from step have lines': "\<forall>x \<in> set (headers_buffer (exec b c h)). is_line x"
    by blast
  from step have blocks: "header_blocks [] (wfile (exec b c h))
      = header_blocks [] (wfile h)
        @ (if c = End_headers then [headers_buffer h @ cors_headers @ [BlankLine]] else [])"
    by blast
  have "suffix (cors_headers @ [BlankLine]) (headers_buffer h @ cors_headers @ [BlankLine])"
    by (simp add: suffix_def)
  with Cons.prems(3) blocks have good': "every_header_block_ends_with_cors (wfile (exec b c h))"
    by (auto simp: every_header_block_ends_with_cors_def)
  from Cons.IH [OF closed' lines' good'] blocks show ?case
    by simp
qed

lemma run_new_handler:
  "every_header_block_ends_with_cors (wfile (run b cs new_handler))
   \<and> length (header_blocks [] (wfile (run b cs new_handler))) = count_list cs End_headers"
  using run_header_blocks [of new_handler b cs]
  by (simp add: new_handler_def every_header_block_ends_with_cors_def)

lemma do_OPTIONS_eq:
  "do_OPTIONS b h =
     \<lparr>headers_buffer = [],
      wfile = wfile h @ headers_buffer h @
        [StatusLine 200, HeaderLine ''Server'' (version_string b),
         HeaderLine ''Date'' (date_time_string b)] @ cors_headers @ [BlankLine]\<rparr>"
  by (simp add: do_OPTIONS_def end_headers_eq send_response_eq)

lemma header_blocks_do_OPTIONS:
  "header_blocks [] (wfile (do_OPTIONS b new_handler)) =
     [[StatusLine 200, HeaderLine ''Server'' (version_string b),
       HeaderLine ''Date'' (date_time_string b)] @ cors_headers @ [BlankLine]]"
  by (simp add: do_OPTIONS_eq new_handler_def cors_headers_def)

lemma handle_cors:
  "every_header_block_ends_with_cors (wfile (handle b root st req new_handler))"
proof (cases "command req = ''OPTIONS''")
  case True
  then show ?thesis
    by (simp add: handle_def header_blocks_do_OPTIONS every_header_block_ends_with_cors_def
        suffix_def)
next
  case False
  then show ?thesis
    by (simp add: handle_def run_new_handler)
qed

lemma handle_ends_headers:
  assumes "ends_headers b root st req"
  shows "header_blocks [] (wfile (handle b root st req new_handler)) \<noteq> []"
proof (cases "command req = ''OPTIONS''")
  case True
  then show ?thesis
    by (simp add: handle_def header_blocks_do_OPTIONS)
next
  case False
  define cs where
    "cs = (if command req = ''GET'' then do_GET b root st (url req) else other_method b req)"
  from False assms have "End_headers \<in> set cs"
    by (simp add: ends_headers_def cs_def)
  then have "count_list cs End_headers \<noteq> 0"
    by (simp only: count_list_0_iff not_not)
  moreover from False have "wfile (handle b root st req new_handler) = wfile (run b cs new_handler)"
    by (simp add: handle_def cs_def)
  ultimately show ?thesis
    using run_new_handler [of b cs] by auto
qed

text \<open>
  Every status or header line on the connection lies in one of the header blocks, and a
  block holds nothing but what the connection received.
\<close>

lemma line_in_header_block:
  "x \<in> set cur \<union> set ws \<Longrightarrow> is_line x \<Longrightarrow> \<exists>blk \<in> set (header_blocks cur ws). x \<in> set blk"
proof (induction cur ws rule: header_blocks.induct)
  case (1 cur)
  then show ?case by auto
next
  case (2 cur ws)
  then show ?case by auto
next
  case (3 cur bs ws)
  then show ?case by auto
next
  case (4 cur code ws)
  then show ?case by auto
next
  case (5 cur k v ws)
  then show ?case by auto
qed

lemma header_block_subset:
  "blk \<in> set (header_blocks cur ws) \<Longrightarrow> set blk \<subseteq> set cur \<union> set ws"
proof (induction cur ws rule: header_blocks.induct)
  case (1 cur)
  then show ?case by (auto split: if_splits)
next
  case (2 cur ws)
  then show ?case by auto
next
  case (3 cur bs ws)
  then show ?case by (auto split: if_splits)
next
  case (4 cur code ws)
  then show ?case by auto
next
  case (5 cur k v ws)
  then show ?case by auto
qed

lemma status_line_with_cors:
  assumes good: "every_header_block_ends_with_cors ws" and status: "StatusLine code \<in> set ws"
  shows "set cors_headers \<subseteq> set ws \<and> BlankLine \<in> set ws"
proof -
  from status obtain blk where blk: "blk \<in> set (header_blocks [] ws)"
    using line_in_header_block [of "StatusLine code" "[]" ws] by auto
  with good have "suffix (cors_headers @ [BlankLine]) blk"
    by (simp add: every_header_block_ends_with_cors_def)
  then have "set (cors_headers @ [BlankLine]) \<subseteq> set blk"
    by (rule set_mono_suffix)
  with header_block_subset [OF blk] show ?thesis by auto
qed

lemma header_block_sent_with_cors:
  assumes good: "every_header_block_ends_with_cors ws" and sent: "header_blocks [] ws \<noteq> []"
  shows "set cors_headers \<subseteq> set ws \<and> BlankLine \<in> set ws"
proof -
  from sent obtain blk where blk: "blk \<in> set (header_blocks [] ws)"
    by (cases "header_blocks [] ws") auto
  with good have "suffix (cors_headers @ [BlankLine]) blk"
    by (simp add: every_header_block_ends_with_cors_def)
  then have "set (cors_headers @ [BlankLine]) \<subseteq> set blk"
    by (rule set_mono_suffix)
  with header_block_subset [OF blk] show ?thesis by auto
qed


section \<open>The runs of main, case by case\<close>

lemma foldl_serve_one:
  "foldl (serve_one e) w rs =
     w\<lparr>trace := trace w @
        map (\<lambda>req. Response req (wfile (handle (base e) (cwd w) (stat e) req new_handler))) rs\<rparr>"
  by (induction rs arbitrary: w) (simp_all add: serve_one_def emit_def)

lemma banner_block:
  "block (map (banner_print e) (enumerate n ls) @ rest) w =
     (case banner_interrupt e of
        None \<Rightarrow> block rest (w\<lparr>trace := trace w @ map Print ls\<rparr>)
      | Some k \<Rightarrow>
          if n \<le> k \<and> k < n + length ls
          then (Raised KeyboardInterrupt, w\<lparr>trace := trace w @ map Print (take (k - n) ls)\<rparr>)
          else block rest (w\<lparr>trace := trace w @ map Print ls\<rparr>))"
proof (induction ls arbitrary: n w)
  case Nil
  then show ?case by (auto split: option.split)
next
  case (Cons l ls)
  show ?case
  proof (cases "banner_interrupt e = Some n")
    case True
    then show ?thesis by (simp add: seq_def banner_print_def)
  next
    case False
    then have "block (map (banner_print e) (enumerate n (l # ls)) @ rest) w =
        block (map (banner_print e) (enumerate (Suc n) ls) @ rest) (emit (Print l) w)"
      by (simp add: seq_def banner_print_def print_line_def)
    with False show ?thesis
      by (auto simp: Cons.IH emit_def take_Cons' Suc_diff_le split: option.split)
  qed
qed

lemma str_nat_PORT: "str_nat PORT = ''8000''"
  by (simp add: PORT_def str_nat.simps [of 8000] str_nat.simps [of 800] str_nat.simps [of 80]
      str_nat.simps [of 8] digit_def)

lemma server_url_eq: "server_url = ''http://localhost:8000''"
  by (simp add: server_url_def HOST_def str_nat_PORT)

lemma length_banner_lines: "length (banner_lines p) = 12"
  by (simp add: banner_lines_def)

lemma seq_pass: "seq a pass = a"
  by (auto simp: seq_def pass_def fun_eq_iff split: prod.split outcome.split)

lemma main_gate:
  "main e (start d) =
     (if missing_at_root e \<noteq> [] then
        (Raised (SystemExit 1),
         \<lparr>cwd = script_dir e, listening = False,
          trace = [Chdir (script_dir e), Print (missing_message (missing_at_root e)),
            Print ''Please ensure all frontend files are in the same directory as this server script.'']\<rparr>)
      else
        with_TCPServer e HOST PORT
          (block
             (map (banner_print e) (enumerate 0 (banner_lines (script_dir e)))
              @ [try_except (webbrowser_open e server_url) is_Exception pass,
                 try_except (serve_forever e) is_KeyboardInterrupt
                   (block (map print_line shutdown_lines))]))
          \<lparr>cwd = script_dir e, listening = False, trace = [Chdir (script_dir e)]\<rparr>)"
proof -
  have m: "missing_files e \<lparr>cwd = script_dir e, listening = False, trace = [Chdir (script_dir e)]\<rparr>
      = missing_at_root e"
    by (simp add: missing_files_def missing_at_root_def path_exists_def)
  show ?thesis
    by (simp add: main_def Let_def script_dir_def [symmetric] seq_pass)
      (simp add: seq_def chdir_def start_def emit_def check_required_def m pass_def
        print_line_def sys_exit_def)
qed


lemma serve_part:
  "try_except (serve_forever e) is_KeyboardInterrupt (block (map print_line shutdown_lines)) w =
     (let w' = w\<lparr>trace := trace w @ Serve_forever #
          map (\<lambda>req. Response req (wfile (handle (base e) (cwd w) (stat e) req new_handler)))
            (requests e)\<rparr>
      in case serve_end e of
           None \<Rightarrow> (Blocked, w')
         | Some x \<Rightarrow>
             if is_KeyboardInterrupt x
             then (Returned, w'\<lparr>trace := trace w' @ map Print shutdown_lines\<rparr>)
             else (Raised x, w'))"
  by (simp add: try_except_def serve_forever_def foldl_serve_one emit_def Let_def
      shutdown_lines_def seq_def pass_def print_line_def split: option.split)

lemma browser_part:
  "block [try_except (webbrowser_open e u) is_Exception pass, rest] w =
     (if browser_swallowed e then rest (emit (Open_browser u) w)
      else (case browser e of Raises x \<Rightarrow> (Raised x, emit (Open_browser u) w)
            | Returns ok \<Rightarrow> rest (emit (Open_browser u) w)))"
  by (simp add: seq_pass)
    (simp add: seq_def try_except_def webbrowser_open_def pass_def browser_swallowed_def
      split: browser_result.split)

lemma main_missing:
  assumes "missing_at_root e \<noteq> []"
  shows "main e (start d) =
     (Raised (SystemExit 1),
      \<lparr>cwd = script_dir e, listening = False,
       trace = [Chdir (script_dir e), Print (missing_message (missing_at_root e)),
         Print ''Please ensure all frontend files are in the same directory as this server script.'']\<rparr>)"
  using assms by (simp add: main_gate)

lemma main_bind_error:
  assumes "missing_at_root e = []" and "bind_error e = Some x"
  shows "main e (start d) =
     (Raised x,
      \<lparr>cwd = script_dir e, listening = False,
       trace = [Chdir (script_dir e), Bind ''localhost'' 8000]\<rparr>)"
  using assms by (simp add: main_gate with_TCPServer_def emit_def HOST_def PORT_def)

lemma main_banner_interrupt:
  assumes "missing_at_root e = []" and "bind_error e = None"
    and "banner_interrupt e = Some k" and "k < length (banner_lines (script_dir e))"
  shows "main e (start d) =
     (Raised KeyboardInterrupt,
      \<lparr>cwd = script_dir e, listening = False,
       trace = [Chdir (script_dir e), Bind ''localhost'' 8000]
         @ map Print (take k (banner_lines (script_dir e))) @ [Server_close]\<rparr>)"
  using assms
  by (simp add: main_gate with_TCPServer_def emit_def HOST_def PORT_def banner_block Let_def
      del: block.simps)

lemma main_browser_raises:
  assumes "missing_at_root e = []" and "bind_error e = None"
    and "\<not> banner_interrupted e" and "browser e = Raises x" and "\<not> is_Exception x"
  shows "main e (start d) =
     (Raised x,
      \<lparr>cwd = script_dir e, listening = False, trace = startup e @ [Server_close]\<rparr>)"
  using assms
  by (auto simp add: main_gate with_TCPServer_def emit_def HOST_def PORT_def banner_block
      browser_part browser_swallowed_def banner_interrupted_def startup_def server_url_eq
      Let_def simp del: block.simps split: option.splits)

lemma main_serves:
  assumes "missing_at_root e = []" and "bind_error e = None"
    and "\<not> banner_interrupted e" and "browser_swallowed e"
  shows "main e (start d) =
     (case serve_end e of
        None \<Rightarrow>
          (Blocked,
           \<lparr>cwd = script_dir e, listening = True,
            trace = startup e @ Serve_forever # served e\<rparr>)
      | Some x \<Rightarrow>
          if is_KeyboardInterrupt x then
            (Returned,
             \<lparr>cwd = script_dir e, listening = False,
              trace = startup e @ Serve_forever # served e
                @ map Print shutdown_lines @ [Server_close]\<rparr>)
          else
            (Raised x,
             \<lparr>cwd = script_dir e, listening = False,
              trace = startup e @ Serve_forever # served e @ [Server_close]\<rparr>))"
  using assms
  by (auto simp add: main_gate with_TCPServer_def emit_def HOST_def PORT_def banner_block
      browser_part serve_part banner_interrupted_def startup_def served_def server_url_eq
      Let_def simp del: block.simps split: option.splits)

text \<open>
  Every environment falls under one of five cases: a required file is missing, the bind
  fails, the interrupt arrives during the banner, the browser launch raises what the
  guard does not catch, or the serve loop is entered.
\<close>

lemma env_cases:
  obtains (missing) "missing_at_root e \<noteq> []"
    | (unbound) x where "missing_at_root e = []" "bind_error e = Some x"
    | (interrupted) k where "missing_at_root e = []" "bind_error e = None"
        "banner_interrupt e = Some k" "k < length (banner_lines (script_dir e))"
    | (browser) x where "missing_at_root e = []" "bind_error e = None"
        "\<not> banner_interrupted e" "browser e = Raises x" "\<not> is_Exception x"
    | (serving) "missing_at_root e = []" "bind_error e = None"
        "\<not> banner_interrupted e" "browser_swallowed e"
  by (cases "bind_error e"; cases "banner_interrupt e"; cases "browser e")
    (auto simp: banner_interrupted_def browser_swallowed_def)

lemma responses_of_main:
  assumes "Response req ws \<in> set (trace (snd (main e (start d))))"
  shows "req \<in> set (requests e) \<and>
         ws = wfile (handle (base e) (script_dir e) (stat e) req new_handler)"
proof (cases rule: env_cases [of e])
  case missing
  with assms show ?thesis by (simp add: main_missing)
next
  case unbound
  with assms show ?thesis by (simp add: main_bind_error)
next
  case interrupted
  with assms show ?thesis by (auto simp: main_banner_interrupt)
next
  case browser
  with assms show ?thesis by (auto simp: main_browser_raises startup_def)
next
  case serving
  with assms show ?thesis
    by (auto simp: main_serves startup_def served_def shutdown_lines_def
        split: option.splits if_splits)
qed

lemma translate_index: "translate_path root ''/index.html'' = root @ [''index.html'']"
  by (simp add: translate_path_def)

lemma run_do_GET_file:
  assumes "st (translate_path root p) = Some (Regular bs)"
  shows "wfile (run b (do_GET b root st p) new_handler) =
     [StatusLine 200, HeaderLine ''Server'' (version_string b),
      HeaderLine ''Date'' (date_time_string b)]
     @ map (\<lambda>(k, v). HeaderLine k v) (file_headers b (translate_path root p) bs)
     @ cors_headers @ [BlankLine, Body bs]"
  using assms
  by (simp add: do_GET_def run_append run_send_headers send_response_eq end_headers_eq
      wfile_write_def new_handler_def)

lemma run_send_error:
  "wfile (run b (send_error b code) new_handler) =
     [StatusLine code, HeaderLine ''Server'' (version_string b),
      HeaderLine ''Date'' (date_time_string b)]
     @ map (\<lambda>(k, v). HeaderLine k v) (error_headers b code)
     @ cors_headers @ [BlankLine, Body (error_body b code)]"
  by (simp add: send_error_def run_append run_send_headers send_response_eq end_headers_eq
      wfile_write_def new_handler_def)

lemma script_dir_example: "script_dir example_env = [''home'', ''user'', ''app'']"
  by (simp add: script_dir_def parent_def example_env_def)

lemma served_example:
  "served example_env =
     [Response \<lparr>command = ''GET'', url = ''/index.html''\<rparr>
        [StatusLine 200, HeaderLine ''Server'' ''SimpleHTTP/0.6'',
         HeaderLine ''Date'' ''Thu, 01 Jan 1970 00:00:00 GMT'',
         HeaderLine ''Content-type'' ''text/html'',
         HeaderLine ''Access-Control-Allow-Origin'' ''*'',
         HeaderLine ''Access-Control-Allow-Methods'' ''GET, POST, OPTIONS'',
         HeaderLine ''Access-Control-Allow-Headers'' ''Content-Type'', BlankLine,
         Body ''<html></html>''],
      Response \<lparr>command = ''OPTIONS'', url = ''/api/events''\<rparr>
        [StatusLine 200, HeaderLine ''Server'' ''SimpleHTTP/0.6'',
         HeaderLine ''Date'' ''Thu, 01 Jan 1970 00:00:00 GMT'',
         HeaderLine ''Access-Control-Allow-Origin'' ''*'',
         HeaderLine ''Access-Control-Allow-Methods'' ''GET, POST, OPTIONS'',
         HeaderLine ''Access-Control-Allow-Headers'' ''Content-Type'', BlankLine],
      Response \<lparr>command = ''GET'', url = ''/does-not-exist.xyz''\<rparr>
        [StatusLine 404, HeaderLine ''Server'' ''SimpleHTTP/0.6'',
         HeaderLine ''Date'' ''Thu, 01 Jan 1970 00:00:00 GMT'',
         HeaderLine ''Content-Type'' ''text/html;charset=utf-8'',
         HeaderLine ''Access-Control-Allow-Origin'' ''*'',
         HeaderLine ''Access-Control-Allow-Methods'' ''GET, POST, OPTIONS'',
         HeaderLine ''Access-Control-Allow-Headers'' ''Content-Type'', BlankLine,
         Body ''File not found'']]"
  by (simp add: served_def script_dir_example)
   (simp add: example_env_def example_requests_def handle_def do_OPTIONS_eq new_handler_def
      cors_headers_def do_GET_def translate_path_def example_stat_def example_base_def
      send_error_def send_response_eq end_headers_eq wfile_write_def send_header_def)

lemma missing_example: "missing_at_root example_env = []"
  by (simp add: missing_at_root_def script_dir_example required_files_def)
    (simp add: example_env_def example_stat_def)

lemma example_run:
  "main example_env (start d) =
     (Returned,
      \<lparr>cwd = [''home'', ''user'', ''app''], listening = False,
       trace = startup example_env @ Serve_forever # served example_env
         @ map Print shutdown_lines @ [Server_close]\<rparr>)"
proof -
  have "bind_error example_env = None" "\<not> banner_interrupted example_env"
    "browser_swallowed example_env" "serve_end example_env = Some KeyboardInterrupt"
    by (simp_all add: example_env_def banner_interrupted_def browser_swallowed_def)
  then show ?thesis
    by (simp add: main_serves [OF missing_example] script_dir_example)
qed

section \<open>The handler: CORS headers, preflight, static files\<close>

text \<open>
  C1: every response the server sends, whatever the request method and the status,
  carries the three CORS headers with their exact values, added right before the base
  handler ends the headers. Every header block that reaches the connection ends with
  the three lines and the blank line; so a response with a status line, of any code,
  contains them. A response whose method ends its headers, as \<^verbatim>\<open>do_OPTIONS\<close> does,
  has such a block: each call of \<^verbatim>\<open>end_headers\<close> sends one. The same holds of every
  response that a run of \<^verbatim>\<open>main\<close> sends.
\<close>

theorem cors_on_every_response:
  "cors_headers =
     [HeaderLine ''Access-Control-Allow-Origin'' ''*'',
      HeaderLine ''Access-Control-Allow-Methods'' ''GET, POST, OPTIONS'',
      HeaderLine ''Access-Control-Allow-Headers'' ''Content-Type'']
   \<and> every_header_block_ends_with_cors (wfile (handle b root st req new_handler))
   \<and> (StatusLine code \<in> set (wfile (handle b root st req new_handler)) \<longrightarrow>
        set cors_headers \<subseteq> set (wfile (handle b root st req new_handler)))
   \<and> (ends_headers b root st req \<longrightarrow>
        header_blocks [] (wfile (handle b root st req new_handler)) \<noteq> []
        \<and> set cors_headers \<subseteq> set (wfile (handle b root st req new_handler)))
   \<and> length (header_blocks [] (wfile (run b cs new_handler))) = count_list cs End_headers
   \<and> (\<forall>r ws. Response r ws \<in> set (trace (snd (main e (start d)))) \<longrightarrow>
        every_header_block_ends_with_cors ws
        \<and> (StatusLine code \<in> set ws \<longrightarrow> set cors_headers \<subseteq> set ws)
        \<and> (ends_headers (base e) (script_dir e) (stat e) r \<longrightarrow>
             header_blocks [] ws \<noteq> [] \<and> set cors_headers \<subseteq> set ws))"
proof -
  have exact: "cors_headers =
     [HeaderLine ''Access-Control-Allow-Origin'' ''*'',
      HeaderLine ''Access-Control-Allow-Methods'' ''GET, POST, OPTIONS'',
      HeaderLine ''Access-Control-Allow-Headers'' ''Content-Type'']"
    by (simp add: cors_headers_def)
  have one: "every_header_block_ends_with_cors (wfile (handle b' root' st' r new_handler))
      \<and> (StatusLine code \<in> set (wfile (handle b' root' st' r new_handler)) \<longrightarrow>
           set cors_headers \<subseteq> set (wfile (handle b' root' st' r new_handler)))
      \<and> (ends_headers b' root' st' r \<longrightarrow>
           header_blocks [] (wfile (handle b' root' st' r new_handler)) \<noteq> []
           \<and> set cors_headers \<subseteq> set (wfile (handle b' root' st' r new_handler)))"
    for b' root' st' r
    using handle_cors [of b' root' st' r] handle_ends_headers [of b' root' st' r]
      status_line_with_cors [of "wfile (handle b' root' st' r new_handler)" code]
      header_block_sent_with_cors [of "wfile (handle b' root' st' r new_handler)"]
    by blast
  have sent: "every_header_block_ends_with_cors ws
      \<and> (StatusLine code \<in> set ws \<longrightarrow> set cors_headers \<subseteq> set ws)
      \<and> (ends_headers (base e) (script_dir e) (stat e) r \<longrightarrow>
           header_blocks [] ws \<noteq> [] \<and> set cors_headers \<subseteq> set ws)"
    if "Response r ws \<in> set (trace (snd (main e (start d))))" for r ws
  proof -
    from that have "ws = wfile (handle (base e) (script_dir e) (stat e) r new_handler)"
      by (simp add: responses_of_main)
    with one [of "base e" "script_dir e" "stat e" r] show ?thesis
      by simp
  qed
  from exact one [of b root st req] run_new_handler [of b cs] sent show ?thesis
    by blast
qed

theorem cors_on_every_response_witness:
  "Response \<lparr>command = ''GET'', url = ''/does-not-exist.xyz''\<rparr>
     [StatusLine 404, HeaderLine ''Server'' ''SimpleHTTP/0.6'',
      HeaderLine ''Date'' ''Thu, 01 Jan 1970 00:00:00 GMT'',
      HeaderLine ''Content-Type'' ''text/html;charset=utf-8'',
      HeaderLine ''Access-Control-Allow-Origin'' ''*'',
      HeaderLine ''Access-Control-Allow-Methods'' ''GET, POST, OPTIONS'',
      HeaderLine ''Access-Control-Allow-Headers'' ''Content-Type'', BlankLine,
      Body ''File not found'']
     \<in> set (trace (snd (main example_env (start [''tmp'']))))
   \<and> ends_headers example_base [''home'', ''user'', ''app''] example_stat
        \<lparr>command = ''GET'', url = ''/does-not-exist.xyz''\<rparr>
   \<and> every_header_block_ends_with_cors
     [StatusLine 404, HeaderLine ''Server'' ''SimpleHTTP/0.6'',
      HeaderLine ''Date'' ''Thu, 01 Jan 1970 00:00:00 GMT'',
      HeaderLine ''Content-Type'' ''text/html;charset=utf-8'',
      HeaderLine ''Access-Control-Allow-Origin'' ''*'',
      HeaderLine ''Access-Control-Allow-Methods'' ''GET, POST, OPTIONS'',
      HeaderLine ''Access-Control-Allow-Headers'' ''Content-Type'', BlankLine,
      Body ''File not found'']
   \<and> header_blocks []
     [StatusLine 404, HeaderLine ''Server'' ''SimpleHTTP/0.6'',
      HeaderLine ''Date'' ''Thu, 01 Jan 1970 00:00:00 GMT'',
      HeaderLine ''Content-Type'' ''text/html;charset=utf-8'',
      HeaderLine ''Access-Control-Allow-Origin'' ''*'',
      HeaderLine ''Access-Control-Allow-Methods'' ''GET, POST, OPTIONS'',
      HeaderLine ''Access-Control-Allow-Headers'' ''Content-Type'', BlankLine,
      Body ''File not found''] \<noteq> []
   \<and> set cors_headers \<subseteq> set
     [StatusLine 404, HeaderLine ''Server'' ''SimpleHTTP/0.6'',
      HeaderLine ''Date'' ''Thu, 01 Jan 1970 00:00:00 GMT'',
      HeaderLine ''Content-Type'' ''text/html;charset=utf-8'',
      HeaderLine ''Access-Control-Allow-Origin'' ''*'',
      HeaderLine ''Access-Control-Allow-Methods'' ''GET, POST, OPTIONS'',
      HeaderLine ''Access-Control-Allow-Headers'' ''Content-Type'', BlankLine,
      Body ''File not found'']"
proof -
  let ?req = "\<lparr>command = ''GET'', url = ''/does-not-exist.xyz''\<rparr>"
  let ?ws = "[StatusLine 404, HeaderLine ''Server'' ''SimpleHTTP/0.6'',
      HeaderLine ''Date'' ''Thu, 01 Jan 1970 00:00:00 GMT'',
      HeaderLine ''Content-Type'' ''text/html;charset=utf-8'',
      HeaderLine ''Access-Control-Allow-Origin'' ''*'',
      HeaderLine ''Access-Control-Allow-Methods'' ''GET, POST, OPTIONS'',
      HeaderLine ''Access-Control-Allow-Headers'' ''Content-Type'', BlankLine,
      Body ''File not found'']"
  have sent: "Response ?req ?ws \<in> set (trace (snd (main example_env (start [''tmp'']))))"
    by (simp add: example_run served_example)
  have ends: "ends_headers example_base [''home'', ''user'', ''app''] example_stat ?req"
    by (simp add: ends_headers_def do_GET_def translate_path_def example_stat_def
        send_error_def)
  have env: "base example_env = example_base" "stat example_env = example_stat"
    by (simp_all add: example_env_def)
  from cors_on_every_response [of example_base "[''home'', ''user'', ''app'']" example_stat
      ?req 404 "[]" example_env "[''tmp'']"]
  have "\<forall>r ws. Response r ws \<in> set (trace (snd (main example_env (start [''tmp'']))))
      \<longrightarrow> every_header_block_ends_with_cors ws
        \<and> (StatusLine 404 \<in> set ws \<longrightarrow> set cors_headers \<subseteq> set ws)
        \<and> (ends_headers example_base [''home'', ''user'', ''app''] example_stat r
             \<longrightarrow> header_blocks [] ws \<noteq> [] \<and> set cors_headers \<subseteq> set ws)"
    by (simp add: env script_dir_example)
  with sent ends
  have "every_header_block_ends_with_cors ?ws \<and> header_blocks [] ?ws \<noteq> []
      \<and> set cors_headers \<subseteq> set ?ws"
    by blast
  with sent ends show ?thesis
    by blast
qed

text \<open>
  C2: an OPTIONS request, to any path and whatever the file system holds, is answered
  without looking at the files: status 200, the three CORS headers, no body.
\<close>

theorem options_preflight:
  assumes "command req = ''OPTIONS''"
  shows "handle b root st req h = do_OPTIONS b h
    \<and> wfile (handle b root st req new_handler) =
       [StatusLine 200, HeaderLine ''Server'' (version_string b),
        HeaderLine ''Date'' (date_time_string b),
        HeaderLine ''Access-Control-Allow-Origin'' ''*'',
        HeaderLine ''Access-Control-Allow-Methods'' ''GET, POST, OPTIONS'',
        HeaderLine ''Access-Control-Allow-Headers'' ''Content-Type'', BlankLine]"
  using assms
  by (simp add: handle_def do_OPTIONS_eq new_handler_def cors_headers_def)

theorem options_preflight_witness:
  "command \<lparr>command = ''OPTIONS'', url = ''/api/events''\<rparr> = ''OPTIONS''
   \<and> example_stat (translate_path [''home'', ''user'', ''app''] ''/api/events'') = None
   \<and> wfile (handle example_base [''home'', ''user'', ''app''] example_stat
         \<lparr>command = ''OPTIONS'', url = ''/api/events''\<rparr> new_handler) =
       [StatusLine 200, HeaderLine ''Server'' ''SimpleHTTP/0.6'',
        HeaderLine ''Date'' ''Thu, 01 Jan 1970 00:00:00 GMT'',
        HeaderLine ''Access-Control-Allow-Origin'' ''*'',
        HeaderLine ''Access-Control-Allow-Methods'' ''GET, POST, OPTIONS'',
        HeaderLine ''Access-Control-Allow-Headers'' ''Content-Type'', BlankLine]"
proof -
  have c: "command \<lparr>command = ''OPTIONS'', url = ''/api/events''\<rparr> = ''OPTIONS''"
    by simp
  from options_preflight [OF c, of example_base "[''home'', ''user'', ''app'']" example_stat]
  have "wfile (handle example_base [''home'', ''user'', ''app''] example_stat
         \<lparr>command = ''OPTIONS'', url = ''/api/events''\<rparr> new_handler) =
       [StatusLine 200, HeaderLine ''Server'' (version_string example_base),
        HeaderLine ''Date'' (date_time_string example_base),
        HeaderLine ''Access-Control-Allow-Origin'' ''*'',
        HeaderLine ''Access-Control-Allow-Methods'' ''GET, POST, OPTIONS'',
        HeaderLine ''Access-Control-Allow-Headers'' ''Content-Type'', BlankLine]"
    by (rule conjunct2)
  then show ?thesis
    by (simp add: example_base_def translate_path_def example_stat_def)
qed

text \<open>
  C4: a GET goes to the static-file handler of the base class. For
  \<^verbatim>\<open>/index.html\<close>, a file of the document root, the answer is status 200 and exactly
  the bytes of the file; for a path that does not exist it is the not-found status;
  both carry the CORS headers.
\<close>

theorem get_static_file:
  "(command req = ''GET'' \<longrightarrow>
      handle b root st req h = run b (do_GET b root st (url req)) h)
   \<and> (command req = ''GET'' \<and> url req = ''/index.html''
        \<and> st (root @ [''index.html'']) = Some (Regular bs) \<longrightarrow>
      wfile (handle b root st req new_handler) =
        [StatusLine 200, HeaderLine ''Server'' (version_string b),
         HeaderLine ''Date'' (date_time_string b)]
        @ map (\<lambda>(k, v). HeaderLine k v) (file_headers b (root @ [''index.html'']) bs)
        @ cors_headers @ [BlankLine, Body bs])
   \<and> (command req = ''GET'' \<and> st (translate_path root (url req)) = None \<longrightarrow>
      wfile (handle b root st req new_handler) =
        [StatusLine 404, HeaderLine ''Server'' (version_string b),
         HeaderLine ''Date'' (date_time_string b)]
        @ map (\<lambda>(k, v). HeaderLine k v) (error_headers b 404)
        @ cors_headers @ [BlankLine, Body (error_body b 404)])"
proof (intro conjI impI)
  assume "command req = ''GET''"
  then show "handle b root st req h = run b (do_GET b root st (url req)) h"
    by (simp add: handle_def)
next
  assume a: "command req = ''GET'' \<and> url req = ''/index.html''
    \<and> st (root @ [''index.html'']) = Some (Regular bs)"
  then have "st (translate_path root (url req)) = Some (Regular bs)"
    by (simp add: translate_index)
  with run_do_GET_file [of st root "url req" bs b] a
  show "wfile (handle b root st req new_handler) =
        [StatusLine 200, HeaderLine ''Server'' (version_string b),
         HeaderLine ''Date'' (date_time_string b)]
        @ map (\<lambda>(k, v). HeaderLine k v) (file_headers b (root @ [''index.html'']) bs)
        @ cors_headers @ [BlankLine, Body bs]"
    by (simp add: handle_def translate_index)
next
  assume a: "command req = ''GET'' \<and> st (translate_path root (url req)) = None"
  then have "do_GET b root st (url req) = send_error b 404"
    by (simp add: do_GET_def)
  with a run_send_error [of b 404]
  show "wfile (handle b root st req new_handler) =
        [StatusLine 404, HeaderLine ''Server'' (version_string b),
         HeaderLine ''Date'' (date_time_string b)]
        @ map (\<lambda>(k, v). HeaderLine k v) (error_headers b 404)
        @ cors_headers @ [BlankLine, Body (error_body b 404)]"
    by (simp add: handle_def)
qed

theorem get_static_file_witness:
  "example_stat ([''home'', ''user'', ''app''] @ [''index.html'']) = Some (Regular ''<html></html>'')
   \<and> wfile (handle example_base [''home'', ''user'', ''app''] example_stat
         \<lparr>command = ''GET'', url = ''/index.html''\<rparr> new_handler) =
       [StatusLine 200, HeaderLine ''Server'' ''SimpleHTTP/0.6'',
        HeaderLine ''Date'' ''Thu, 01 Jan 1970 00:00:00 GMT'',
        HeaderLine ''Content-type'' ''text/html'',
        HeaderLine ''Access-Control-Allow-Origin'' ''*'',
        HeaderLine ''Access-Control-Allow-Methods'' ''GET, POST, OPTIONS'',
        HeaderLine ''Access-Control-Allow-Headers'' ''Content-Type'', BlankLine,
        Body ''<html></html>'']
   \<and> example_stat (translate_path [''home'', ''user'', ''app''] ''/does-not-exist.xyz'') = None
   \<and> wfile (handle example_base [''home'', ''user'', ''app''] example_stat
         \<lparr>command = ''GET'', url = ''/does-not-exist.xyz''\<rparr> new_handler) =
       [StatusLine 404, HeaderLine ''Server'' ''SimpleHTTP/0.6'',
        HeaderLine ''Date'' ''Thu, 01 Jan 1970 00:00:00 GMT'',
        HeaderLine ''Content-Type'' ''text/html;charset=utf-8'',
        HeaderLine ''Access-Control-Allow-Origin'' ''*'',
        HeaderLine ''Access-Control-Allow-Methods'' ''GET, POST, OPTIONS'',
        HeaderLine ''Access-Control-Allow-Headers'' ''Content-Type'', BlankLine,
        Body ''File not found'']"
proof -
  have found: "example_stat ([''home'', ''user'', ''app''] @ [''index.html'']) =
      Some (Regular ''<html></html>'')"
    by (simp add: example_stat_def)
  have absent: "example_stat (translate_path [''home'', ''user'', ''app''] ''/does-not-exist.xyz'') = None"
    by (simp add: example_stat_def translate_path_def)
  from found
    get_static_file [of "\<lparr>command = ''GET'', url = ''/index.html''\<rparr>" example_base
      "[''home'', ''user'', ''app'']" example_stat new_handler "''<html></html>''",
      THEN conjunct2, THEN conjunct1]
  have served: "wfile (handle example_base [''home'', ''user'', ''app''] example_stat
         \<lparr>command = ''GET'', url = ''/index.html''\<rparr> new_handler) =
      [StatusLine 200, HeaderLine ''Server'' (version_string example_base),
       HeaderLine ''Date'' (date_time_string example_base)]
      @ map (\<lambda>(k, v). HeaderLine k v)
          (file_headers example_base ([''home'', ''user'', ''app''] @ [''index.html''])
             ''<html></html>'')
      @ cors_headers @ [BlankLine, Body ''<html></html>'']"
    by simp
  from absent
    get_static_file [of "\<lparr>command = ''GET'', url = ''/does-not-exist.xyz''\<rparr>" example_base
      "[''home'', ''user'', ''app'']" example_stat new_handler "[]",
      THEN conjunct2, THEN conjunct2]
  have not_found: "wfile (handle example_base [''home'', ''user'', ''app''] example_stat
         \<lparr>command = ''GET'', url = ''/does-not-exist.xyz''\<rparr> new_handler) =
      [StatusLine 404, HeaderLine ''Server'' (version_string example_base),
       HeaderLine ''Date'' (date_time_string example_base)]
      @ map (\<lambda>(k, v). HeaderLine k v) (error_headers example_base 404)
      @ cors_headers @ [BlankLine, Body (error_body example_base 404)]"
    by simp
  from found absent show ?thesis
    by (simp add: served not_found) (simp add: example_base_def cors_headers_def)
qed

section \<open>Startup: the required files and the bind address\<close>

lemma binds_of_main:
  assumes "Bind h p \<in> set (trace (snd (main e (start d))))"
  shows "h = ''localhost'' \<and> p = 8000"
proof (cases rule: env_cases [of e])
  case missing
  with assms show ?thesis by (simp add: main_missing)
next
  case unbound
  with assms show ?thesis by (simp add: main_bind_error)
next
  case interrupted
  with assms show ?thesis by (auto simp: main_banner_interrupt)
next
  case browser
  with assms show ?thesis by (auto simp: main_browser_raises startup_def)
next
  case serving
  with assms show ?thesis
    by (auto simp: main_serves startup_def served_def shutdown_lines_def
        split: option.splits if_splits)
qed

lemma main_passes_gate:
  assumes "missing_at_root e = []"
  shows "take 2 (trace (snd (main e (start d)))) = [Chdir (script_dir e), Bind ''localhost'' 8000]"
proof (cases rule: env_cases [of e])
  case missing
  with assms show ?thesis by simp
next
  case unbound
  then show ?thesis by (simp add: main_bind_error)
next
  case interrupted
  then show ?thesis by (simp add: main_banner_interrupt)
next
  case browser
  then show ?thesis by (simp add: main_browser_raises startup_def)
next
  case serving
  then show ?thesis
    by (simp add: main_serves startup_def split: option.split)
qed

lemma serve_loop_entered:
  assumes "Serve_forever \<in> set (trace (snd (main e (start d))))"
  shows "missing_at_root e = [] \<and> bind_error e = None \<and> \<not> banner_interrupted e
    \<and> browser_swallowed e"
proof (cases rule: env_cases [of e])
  case missing
  with assms show ?thesis by (simp add: main_missing)
next
  case unbound
  with assms show ?thesis by (simp add: main_bind_error)
next
  case interrupted
  with assms show ?thesis by (auto simp: main_banner_interrupt)
next
  case browser
  with assms show ?thesis by (auto simp: main_browser_raises startup_def)
next
  case serving
  then show ?thesis by simp
qed

text \<open>
  C3: when one of the three required files is missing from the document root, the
  process prints a message that names exactly the missing files, exits with status 1
  and never binds a socket; when all three are there, it goes on to bind.
\<close>

theorem startup_gate:
  "(missing_at_root e \<noteq> [] \<longrightarrow>
      main e (start d) =
        (Raised (SystemExit 1),
         \<lparr>cwd = script_dir e, listening = False,
          trace =
            [Chdir (script_dir e),
             Print (cross_mark @ '' Missing required files: '' @ join '', '' (missing_at_root e)),
             Print ''Please ensure all frontend files are in the same directory as this server script.'']\<rparr>)
      \<and> process_exit (fst (main e (start d))) = Exit_nonzero
      \<and> (\<forall>h p. Bind h p \<notin> set (trace (snd (main e (start d))))))
   \<and> (missing_at_root e = [] \<longrightarrow>
      take 2 (trace (snd (main e (start d)))) = [Chdir (script_dir e), Bind ''localhost'' 8000])"
  by (simp add: main_missing main_passes_gate missing_message_def)

lemma script_dir_stat_update: "script_dir (e\<lparr>stat := st\<rparr>) = script_dir e"
  by (simp add: script_dir_def)

lemma missing_incomplete:
  "missing_at_root (example_env\<lparr>stat := incomplete_stat\<rparr>) = [''styles.css'', ''script.js'']"
  by (simp add: missing_at_root_def script_dir_stat_update script_dir_example required_files_def)
    (simp add: incomplete_stat_def)

theorem startup_gate_witness:
  "missing_at_root (example_env\<lparr>stat := incomplete_stat\<rparr>) = [''styles.css'', ''script.js'']
   \<and> main (example_env\<lparr>stat := incomplete_stat\<rparr>) (start [''tmp'']) =
        (Raised (SystemExit 1),
         \<lparr>cwd = [''home'', ''user'', ''app''], listening = False,
          trace =
            [Chdir [''home'', ''user'', ''app''],
             Print (cross_mark @ '' Missing required files: styles.css, script.js''),
             Print ''Please ensure all frontend files are in the same directory as this server script.'']\<rparr>)
   \<and> missing_at_root example_env = []
   \<and> take 2 (trace (snd (main example_env (start [''tmp'']))))
       = [Chdir [''home'', ''user'', ''app''], Bind ''localhost'' 8000]"
proof -
  from missing_incomplete
    startup_gate [of "example_env\<lparr>stat := incomplete_stat\<rparr>" "[''tmp'']", THEN conjunct1]
  have failing: "main (example_env\<lparr>stat := incomplete_stat\<rparr>) (start [''tmp'']) =
        (Raised (SystemExit 1),
         \<lparr>cwd = [''home'', ''user'', ''app''], listening = False,
          trace =
            [Chdir [''home'', ''user'', ''app''],
             Print (cross_mark @ '' Missing required files: styles.css, script.js''),
             Print ''Please ensure all frontend files are in the same directory as this server script.'']\<rparr>)"
    by (simp add: script_dir_stat_update script_dir_example)
  from missing_example startup_gate [of example_env "[''tmp'']", THEN conjunct2]
  have passing: "take 2 (trace (snd (main example_env (start [''tmp'']))))
       = [Chdir [''home'', ''user'', ''app''], Bind ''localhost'' 8000]"
    by (simp add: script_dir_example)
  from failing passing missing_incomplete missing_example show ?thesis
    by simp
qed

text \<open>
  C9: the gate asks only whether the three names exist. Whatever kind of entry each of
  them is, a directory included, the gate passes and the server goes on to bind.
\<close>

theorem gate_tests_existence_only:
  assumes "\<forall>f \<in> set required_files. \<exists>en. stat e (script_dir e @ [f]) = Some en"
  shows "missing_at_root e = []
    \<and> take 2 (trace (snd (main e (start d)))) = [Chdir (script_dir e), Bind ''localhost'' 8000]"
proof -
  from assms have "missing_at_root e = []"
    by (auto simp: missing_at_root_def filter_empty_conv)
  then show ?thesis by (simp add: main_passes_gate)
qed

theorem gate_tests_existence_only_witness:
  "stat (example_env\<lparr>stat := directories_stat\<rparr>) [''home'', ''user'', ''app'', ''index.html'']
     = Some Directory
   \<and> stat (example_env\<lparr>stat := directories_stat\<rparr>) [''home'', ''user'', ''app'', ''styles.css'']
     = Some Directory
   \<and> stat (example_env\<lparr>stat := directories_stat\<rparr>) [''home'', ''user'', ''app'', ''script.js'']
     = Some Directory
   \<and> take 2 (trace (snd (main (example_env\<lparr>stat := directories_stat\<rparr>) (start [''tmp'']))))
     = [Chdir [''home'', ''user'', ''app''], Bind ''localhost'' 8000]"
proof -
  have all_there: "\<forall>f \<in> set required_files.
      \<exists>en. stat (example_env\<lparr>stat := directories_stat\<rparr>)
        (script_dir (example_env\<lparr>stat := directories_stat\<rparr>) @ [f]) = Some en"
    by (simp add: required_files_def script_dir_stat_update script_dir_example directories_stat_def)
  from gate_tests_existence_only [OF all_there, of "[''tmp'']"]
  show ?thesis
    by (simp add: script_dir_stat_update script_dir_example directories_stat_def)
qed

text \<open>
  C8: the server binds to localhost, port 8000, and to nothing else: whatever is
  outside of the process and wherever it is started, every bind of a run is this one.
\<close>

theorem fixed_bind_address:
  "HOST = ''localhost'' \<and> PORT = 8000
   \<and> (\<forall>h p. Bind h p \<in> set (trace (snd (main e (start d)))) \<longrightarrow> h = HOST \<and> p = PORT)"
  using binds_of_main [of _ _ e d] by (auto simp: HOST_def PORT_def)

theorem fixed_bind_address_witness:
  "Bind ''localhost'' 8000 \<in> set (trace (snd (main example_env (start [''tmp'']))))
   \<and> Bind ''localhost'' 8000 \<in> set (trace (snd (main example_env (start [''var'', ''www'']))))
   \<and> HOST = ''localhost'' \<and> PORT = 8000"
proof -
  have "Bind ''localhost'' 8000 \<in> set (trace (snd (main example_env (start d))))" for d
    by (simp add: example_run startup_def)
  with fixed_bind_address [of example_env "[''tmp'']"] show ?thesis
    by simp
qed

section \<open>The working directory, the browser and the interrupt\<close>

lemma browser_update:
  "script_dir (e\<lparr>browser := r\<rparr>) = script_dir e"
  "missing_at_root (e\<lparr>browser := r\<rparr>) = missing_at_root e"
  "banner_interrupted (e\<lparr>browser := r\<rparr>) = banner_interrupted e"
  "startup (e\<lparr>browser := r\<rparr>) = startup e"
  "served (e\<lparr>browser := r\<rparr>) = served e"
  by (simp_all add: script_dir_def missing_at_root_def banner_interrupted_def startup_def
      served_def split: option.split)

lemma banner_interrupt_update:
  "script_dir (e\<lparr>banner_interrupt := i\<rparr>) = script_dir e"
  "missing_at_root (e\<lparr>banner_interrupt := i\<rparr>) = missing_at_root e"
  by (simp_all add: script_dir_def missing_at_root_def)

lemma main_any_directory: "main e (start d) = main e (start d')"
proof (cases rule: env_cases [of e])
  case missing
  then show ?thesis by (simp add: main_missing)
next
  case unbound
  then show ?thesis by (simp add: main_bind_error)
next
  case interrupted
  then show ?thesis by (simp add: main_banner_interrupt)
next
  case browser
  then show ?thesis by (simp add: main_browser_raises)
next
  case serving
  then show ?thesis by (simp add: main_serves)
qed

lemma main_first_chdir:
  "hd (trace (snd (main e (start d)))) = Chdir (script_dir e)
   \<and> cwd (snd (main e (start d))) = script_dir e"
proof (cases rule: env_cases [of e])
  case missing
  then show ?thesis by (simp add: main_missing)
next
  case unbound
  then show ?thesis by (simp add: main_bind_error)
next
  case interrupted
  then show ?thesis by (simp add: main_banner_interrupt)
next
  case browser
  then show ?thesis by (simp add: main_browser_raises startup_def)
next
  case serving
  then show ?thesis by (simp add: main_serves startup_def split: option.split)
qed

lemma bind_iff_all_present:
  "(Bind ''localhost'' 8000 \<in> set (trace (snd (main e (start d)))))
     = (\<forall>f \<in> set required_files. stat e (script_dir e @ [f]) \<noteq> None)"
proof (cases "missing_at_root e = []")
  case True
  from main_passes_gate [OF True, of d]
  have "Bind ''localhost'' 8000 \<in> set (take 2 (trace (snd (main e (start d)))))"
    by simp
  then have "Bind ''localhost'' 8000 \<in> set (trace (snd (main e (start d))))"
    by (rule in_set_takeD)
  moreover from True have "\<forall>f \<in> set required_files. stat e (script_dir e @ [f]) \<noteq> None"
    by (simp add: missing_at_root_def filter_empty_conv)
  ultimately show ?thesis by simp
next
  case False
  then have "\<not> (\<forall>f \<in> set required_files. stat e (script_dir e @ [f]) \<noteq> None)"
    by (simp add: missing_at_root_def filter_empty_conv)
  with False show ?thesis by (simp add: main_missing)
qed

text \<open>
  C5: an interrupt that arrives while the server is in its serve loop ends the loop:
  no further request is answered, the shutdown lines are printed, the socket is closed,
  and the process ends with status 0, no exception reaching the top.
\<close>

theorem interrupt_in_serve_loop:
  assumes "Serve_forever \<in> set (trace (snd (main e (start d))))"
    and "serve_end e = Some KeyboardInterrupt"
  shows "main e (start d) =
      (Returned,
       \<lparr>cwd = script_dir e, listening = False,
        trace = startup e @ Serve_forever # served e
          @ [Print (newline @ newline @ stop_sign @ '' Server stopped by user''),
             Print ''Thank you for using Dynamic Event Scheduler!'',
             Server_close]\<rparr>)
    \<and> process_exit (fst (main e (start d))) = Exit_zero"
proof -
  from assms(1) have "missing_at_root e = []" "bind_error e = None"
    "\<not> banner_interrupted e" "browser_swallowed e"
    by (simp_all add: serve_loop_entered)
  with assms(2) show ?thesis
    by (simp add: main_serves shutdown_lines_def)
qed

theorem interrupt_in_serve_loop_witness:
  "Serve_forever \<in> set (trace (snd (main example_env (start [''tmp'']))))
   \<and> serve_end example_env = Some KeyboardInterrupt
   \<and> fst (main example_env (start [''tmp''])) = Returned
   \<and> process_exit (fst (main example_env (start [''tmp'']))) = Exit_zero
   \<and> listening (snd (main example_env (start [''tmp'']))) = False
   \<and> last (trace (snd (main example_env (start [''tmp''])))) = Server_close"
proof -
  have loop: "Serve_forever \<in> set (trace (snd (main example_env (start [''tmp'']))))"
    by (simp add: example_run)
  have int: "serve_end example_env = Some KeyboardInterrupt"
    by (simp add: example_env_def)
  from interrupt_in_serve_loop [OF loop int] loop int show ?thesis
    by simp
qed

text \<open>
  C6: once the socket is bound and the banner printed, the browser is asked to open
  the root URL of the server. Whether it opens, reports a failure or raises an
  exception makes no difference to the run: nothing more is printed and the serve
  loop is entered next.
\<close>

theorem browser_failure_swallowed:
  assumes "browser e = Returns ok \<or> (browser e = Raises x \<and> is_Exception x)"
  shows "main e (start d) = main (e\<lparr>browser := Returns True\<rparr>) (start d)
    \<and> (missing_at_root e = [] \<and> bind_error e = None \<and> \<not> banner_interrupted e \<longrightarrow>
         take (Suc (length (startup e))) (trace (snd (main e (start d))))
           = startup e @ [Serve_forever])
    \<and> last (startup e) = Open_browser ''http://localhost:8000''"
proof -
  let ?e' = "e\<lparr>browser := Returns True\<rparr>"
  from assms have sw: "browser_swallowed e"
    by (auto simp: browser_swallowed_def)
  have sw': "browser_swallowed ?e'"
    by (simp add: browser_swallowed_def)
  have same: "main e (start d) = main ?e' (start d)"
  proof (cases rule: env_cases [of e])
    case missing
    then show ?thesis by (simp add: main_missing browser_update)
  next
    case unbound
    then show ?thesis by (simp add: main_bind_error browser_update)
  next
    case interrupted
    then show ?thesis by (simp add: main_banner_interrupt browser_update)
  next
    case browser
    with assms show ?thesis by auto
  next
    case serving
    with sw' show ?thesis by (simp add: main_serves browser_update split: option.split)
  qed
  have "take (Suc (length (startup e))) (trace (snd (main e (start d))))
      = startup e @ [Serve_forever]"
    if "missing_at_root e = [] \<and> bind_error e = None \<and> \<not> banner_interrupted e"
    using that sw by (simp add: main_serves split: option.split)
  with same show ?thesis
    by (simp add: startup_def)
qed

theorem browser_failure_swallowed_witness:
  "is_Exception (Error ''no browser'')
   \<and> main (example_env\<lparr>browser := Raises (Error ''no browser'')\<rparr>) (start [''tmp''])
       = main example_env (start [''tmp''])
   \<and> fst (main (example_env\<lparr>browser := Raises (Error ''no browser'')\<rparr>) (start [''tmp'']))
       = Returned
   \<and> Serve_forever
       \<in> set (trace (snd (main (example_env\<lparr>browser := Raises (Error ''no browser'')\<rparr>)
            (start [''tmp'']))))"
proof -
  let ?e = "example_env\<lparr>browser := Raises (Error ''no browser'')\<rparr>"
  have failure: "browser ?e = Returns True \<or>
      (browser ?e = Raises (Error ''no browser'') \<and> is_Exception (Error ''no browser''))"
    by simp
  have "?e\<lparr>browser := Returns True\<rparr> = example_env"
    by (simp add: example_env_def)
  with browser_failure_swallowed [OF failure, of "[''tmp'']"]
  have "main ?e (start [''tmp'']) = main example_env (start [''tmp''])"
    by simp
  then show ?thesis
    by (simp add: example_run)
qed

text \<open>
  C7: the first thing main does is to change the working directory to the directory
  of the script. The required files are looked for there and the requests are served
  from there, whatever the directory the process was started in.
\<close>

theorem working_directory_is_script_directory:
  "main e (start d) = main e (start d')
   \<and> hd (trace (snd (main e (start d)))) = Chdir (parent (script_file e))
   \<and> cwd (snd (main e (start d))) = parent (script_file e)
   \<and> ((Bind ''localhost'' 8000 \<in> set (trace (snd (main e (start d)))))
        = (\<forall>f \<in> set required_files. stat e (parent (script_file e) @ [f]) \<noteq> None))
   \<and> (\<forall>r ws. Response r ws \<in> set (trace (snd (main e (start d)))) \<longrightarrow>
        ws = wfile (handle (base e) (parent (script_file e)) (stat e) r new_handler))"
  using main_any_directory [of e d d'] main_first_chdir [of e d] bind_iff_all_present [of e d]
    responses_of_main [of _ _ e d]
  by (simp add: script_dir_def)

theorem working_directory_is_script_directory_witness:
  "main example_env (start [''tmp'']) = main example_env (start [''var'', ''www''])
   \<and> hd (trace (snd (main example_env (start [''tmp''])))) = Chdir [''home'', ''user'', ''app'']
   \<and> cwd (snd (main example_env (start [''tmp'']))) = [''home'', ''user'', ''app'']
   \<and> Bind ''localhost'' 8000 \<in> set (trace (snd (main example_env (start [''tmp'']))))
   \<and> stat example_env [''home'', ''user'', ''app'', ''index.html''] = Some (Regular ''<html></html>'')
   \<and> stat example_env [''tmp'', ''index.html''] = None"
proof -
  have files: "stat example_env [''home'', ''user'', ''app'', ''index.html'']
        = Some (Regular ''<html></html>'')"
      "stat example_env [''tmp'', ''index.html''] = None"
    by (simp_all add: example_env_def example_stat_def)
  have all_there: "\<forall>f \<in> set required_files.
      stat example_env (parent (script_file example_env) @ [f]) \<noteq> None"
    by (simp add: required_files_def example_env_def parent_def example_stat_def)
  have dir: "parent (script_file example_env) = [''home'', ''user'', ''app'']"
    by (simp add: example_env_def parent_def)
  from working_directory_is_script_directory [of example_env "[''tmp'']" "[''var'', ''www'']"]
    all_there files show ?thesis
    by (elim conjE) (simp add: dir)
qed

text \<open>
  C10: an interrupt that arrives after the bind and before the serve loop, while the
  banner is printed or while the browser is started, is caught by nobody: the guard of
  the browser launch catches \<^verbatim>\<open>Exception\<close> only and the interrupt handler covers the
  serve loop only. The socket is closed on the way out and the process ends with a
  non-zero status.
\<close>

theorem interrupt_before_serve_loop:
  assumes "missing_at_root e = []" and "bind_error e = None"
  shows "(banner_interrupt e = Some k \<and> k < length (banner_lines (script_dir e)) \<longrightarrow>
        main e (start d) =
          (Raised KeyboardInterrupt,
           \<lparr>cwd = script_dir e, listening = False,
            trace = [Chdir (script_dir e), Bind ''localhost'' 8000]
              @ map Print (take k (banner_lines (script_dir e))) @ [Server_close]\<rparr>))
    \<and> (\<not> banner_interrupted e \<and> browser e = Raises KeyboardInterrupt \<longrightarrow>
        main e (start d) =
          (Raised KeyboardInterrupt,
           \<lparr>cwd = script_dir e, listening = False,
            trace = startup e @ [Server_close]\<rparr>))
    \<and> \<not> is_Exception KeyboardInterrupt
    \<and> process_exit (Raised KeyboardInterrupt) = Exit_nonzero"
  using assms by (simp add: main_banner_interrupt main_browser_raises)

theorem interrupt_before_serve_loop_witness:
  "fst (main (example_env\<lparr>banner_interrupt := Some 3\<rparr>) (start [''tmp''])) = Raised KeyboardInterrupt
   \<and> last (trace (snd (main (example_env\<lparr>banner_interrupt := Some 3\<rparr>) (start [''tmp''])))) = Server_close
   \<and> Serve_forever \<notin> set (trace (snd (main (example_env\<lparr>banner_interrupt := Some 3\<rparr>) (start [''tmp'']))))
   \<and> fst (main (example_env\<lparr>browser := Raises KeyboardInterrupt\<rparr>) (start [''tmp''])) = Raised KeyboardInterrupt
   \<and> last (trace (snd (main (example_env\<lparr>browser := Raises KeyboardInterrupt\<rparr>) (start [''tmp''])))) = Server_close
   \<and> Serve_forever \<notin> set (trace (snd (main (example_env\<lparr>browser := Raises KeyboardInterrupt\<rparr>) (start [''tmp'']))))
   \<and> process_exit (Raised KeyboardInterrupt) = Exit_nonzero"
proof -
  let ?e1 = "example_env\<lparr>banner_interrupt := Some 3\<rparr>"
  let ?e2 = "example_env\<lparr>browser := Raises KeyboardInterrupt\<rparr>"
  have m1: "missing_at_root ?e1 = []" and b1: "bind_error ?e1 = None"
    by (simp_all add: banner_interrupt_update missing_example) (simp add: example_env_def)
  have m2: "missing_at_root ?e2 = []" and b2: "bind_error ?e2 = None"
    by (simp_all add: browser_update missing_example) (simp add: example_env_def)
  have i1: "banner_interrupt ?e1 = Some 3 \<and> 3 < length (banner_lines (script_dir ?e1))"
    by (simp add: length_banner_lines)
  have i2: "\<not> banner_interrupted ?e2 \<and> browser ?e2 = Raises KeyboardInterrupt"
    by (simp add: browser_update banner_interrupted_def example_env_def)
  from i1 interrupt_before_serve_loop [OF m1 b1, of 3 "[''tmp'']", THEN conjunct1]
  have r1: "main ?e1 (start [''tmp'']) =
          (Raised KeyboardInterrupt,
           \<lparr>cwd = script_dir ?e1, listening = False,
            trace = [Chdir (script_dir ?e1), Bind ''localhost'' 8000]
              @ map Print (take 3 (banner_lines (script_dir ?e1))) @ [Server_close]\<rparr>)"
    by simp
  from i2 interrupt_before_serve_loop [OF m2 b2, of 0 "[''tmp'']", THEN conjunct2, THEN conjunct1]
  have r2: "main ?e2 (start [''tmp'']) =
          (Raised KeyboardInterrupt,
           \<lparr>cwd = script_dir ?e2, listening = False, trace = startup ?e2 @ [Server_close]\<rparr>)"
    by simp
  show ?thesis
    by (auto simp: r1 r2 startup_def)
qed

end
